theory Spec2Isabelle
  imports Complex_Main
begin

section \<open>Values exchanged with the outside world\<close>

text \<open>
  A Python \<^verbatim>\<open>dict\<close> of strings, in insertion order. Durations and clock readings are
  Python floats; they are modelled as reals, so rounding is not part of the model.
\<close>

type_synonym dict = "(string \<times> string) list"

text \<open>
  The exception classes that occur in \<^verbatim>\<open>aioclient.py\<close> and \<^verbatim>\<open>translator.py\<close>.
  \<open>ServerTimeoutError\<close>, \<open>ClientConnectionError\<close> and \<open>ClientResponseError\<close> are the
  aiohttp classes named in the handlers of \<^verbatim>\<open>_internal_request\<close>; \<open>ConnectionException\<close>
  carries its message and its \<^verbatim>\<open>should_retry\<close> flag; \<open>OtherException\<close> is any other
  subclass of \<^verbatim>\<open>Exception\<close> (a decoding error of the body, for example);
  \<open>CancelledError\<close> is a \<^verbatim>\<open>BaseException\<close> that is not an \<^verbatim>\<open>Exception\<close>.
\<close>

datatype exn =
    ServerTimeoutError string
  | ClientConnectionError string
  | ClientResponseError string
  | ConnectionException string bool
  | DeepLException string
  | ValueError string
  | RuntimeError string
  | OtherException string
  | CancelledError string

fun exn_str :: "exn \<Rightarrow> string" where
  "exn_str (ServerTimeoutError m) = m"
| "exn_str (ClientConnectionError m) = m"
| "exn_str (ClientResponseError m) = m"
| "exn_str (ConnectionException m b) = m"
| "exn_str (DeepLException m) = m"
| "exn_str (ValueError m) = m"
| "exn_str (RuntimeError m) = m"
| "exn_str (OtherException m) = m"
| "exn_str (CancelledError m) = m"

fun is_Exception :: "exn \<Rightarrow> bool" where
  "is_Exception (CancelledError m) = False"
| "is_Exception e = True"

fun is_RuntimeError :: "exn \<Rightarrow> bool" where
  "is_RuntimeError (RuntimeError m) = True"
| "is_RuntimeError e = False"

text \<open>The attribute \<^verbatim>\<open>should_retry\<close>; only a \<open>ConnectionException\<close> has it.\<close>

fun exn_should_retry :: "exn \<Rightarrow> bool" where
  "exn_should_retry (ConnectionException m b) = b"
| "exn_should_retry e = False"

text \<open>The \<^verbatim>\<open>requests.PreparedRequest\<close> as far as \<^verbatim>\<open>_internal_request\<close> reads it.\<close>

record prepared_request =
  req_method :: string
  req_url :: string
  req_body :: "string option"
  req_headers :: dict

text \<open>
  The second component of a response: the body as text, or the live response handle,
  identified by the number of the attempt that opened it.
\<close>

datatype content = Text string | Handle nat

type_synonym response = "int \<times> content"

text \<open>
  What one exchange with the server does: \<^verbatim>\<open>self._session.request\<close> raises, or it returns
  a response with a status whose \<^verbatim>\<open>text(encoding="utf-8")\<close> returns the body or raises.
\<close>

datatype text_outcome = TextOk string | TextRaises exn

datatype exchange = RequestRaises exn | Responds int text_outcome

datatype event =
    EvPrepare string string "dict option" "dict option"
  | EvRequest nat prepared_request real
  | EvResponse nat int
  | EvText nat
  | EvClose nat
  | EvSleep real
  | EvLogRetryable string
  | EvLogRetry nat string string real
  | EvLogInfo string
  | EvLogDebug string
  | EvCreateTask

datatype loop_status = NoCurrentLoop | LoopRunning | LoopIdle | LoopClosed

text \<open>
  The collaborators outside the two modules: the server and the connection pool
  (\<open>exchange_at\<close>, indexed by the attempt), the clock (\<open>time_at\<close>, indexed by the reading),
  the generator behind \<^verbatim>\<open>random.uniform(-1, 1)\<close> (\<open>uniform_at\<close>), the inherited
  \<^verbatim>\<open>_prepare_request\<close> of the wrapped library, \<^verbatim>\<open>urllib.parse.urljoin\<close>,
  \<^verbatim>\<open>json.loads\<close> (\<open>None\<close> for a \<^verbatim>\<open>JSONDecodeError\<close>), \<^verbatim>\<open>util.auth_key_is_free_account\<close>,
  and what closing an open session raises, if anything.
\<close>

record extern =
  exchange_at :: "nat \<Rightarrow> prepared_request \<Rightarrow> real \<Rightarrow> exchange"
  time_at :: "nat \<Rightarrow> real"
  uniform_at :: "nat \<Rightarrow> real"
  prepare_request :: "string \<Rightarrow> string \<Rightarrow> dict option \<Rightarrow> dict option \<Rightarrow> dict \<Rightarrow> dict
                        \<Rightarrow> exn + prepared_request"
  urljoin :: "string \<Rightarrow> string \<Rightarrow> string"
  json_loads :: "string \<Rightarrow> string option"
  auth_key_is_free_account :: "string \<Rightarrow> bool"
  close_failure :: "exn option"

text \<open>
  The constants of the wrapped library that the code reads: the class attributes of
  \<^verbatim>\<open>_BackoffTimer\<close>, \<^verbatim>\<open>min_connection_timeout\<close>, the retry cap and the two server URLs.
\<close>

record settings =
  BACKOFF_INITIAL :: real
  BACKOFF_MAX :: real
  BACKOFF_JITTER :: real
  BACKOFF_MULTIPLIER :: real
  min_connection_timeout :: real
  max_network_retries :: nat
  DEEPL_SERVER_URL :: string
  DEEPL_SERVER_URL_FREE :: string

record world =
  attempts :: nat
  clock_reads :: nat
  draws :: nat
  trace :: "event list"
  session_closed :: bool
  loop :: loop_status

definition emit :: "event \<Rightarrow> world \<Rightarrow> world" where
  "emit ev w = w\<lparr>trace := trace w @ [ev]\<rparr>"

definition time_time :: "extern \<Rightarrow> world \<Rightarrow> real \<times> world" where
  "time_time E w = (time_at E (clock_reads w), w\<lparr>clock_reads := Suc (clock_reads w)\<rparr>)"

definition random_uniform :: "extern \<Rightarrow> world \<Rightarrow> real \<times> world" where
  "random_uniform E w = (uniform_at E (draws w), w\<lparr>draws := Suc (draws w)\<rparr>)"

section \<open>The backoff timer\<close>

record backoff_timer =
  backoff :: real
  deadline :: real
  num_retries :: nat

text \<open>
  Modelled from the spec: the constructor of the base class \<^verbatim>\<open>_BackoffTimer\<close> is not in
  the repository. \<open>initialize()\<close> sets the backoff duration to the base value, the
  deadline to now + base duration and the retry count to 0.
\<close>

definition timer_init :: "settings \<Rightarrow> extern \<Rightarrow> world \<Rightarrow> backoff_timer \<times> world" where
  "timer_init C E w =
     (let (now, w1) = time_time E w
      in (\<lparr>backoff = BACKOFF_INITIAL C, deadline = now + BACKOFF_INITIAL C, num_retries = 0\<rparr>, w1))"

text \<open>
  Modelled from the spec: \<^verbatim>\<open>get_time_until_deadline\<close> of the base class is not in the
  repository. \<open>time_until_deadline()\<close> returns max(0, deadline - now).
\<close>

definition get_time_until_deadline :: "extern \<Rightarrow> backoff_timer \<Rightarrow> world \<Rightarrow> real \<times> world" where
  "get_time_until_deadline E t w =
     (let (now, w1) = time_time E w in (max 0 (deadline t - now), w1))"

text \<open>
  Modelled from the spec: \<^verbatim>\<open>get_timeout\<close> of the base class is not in the repository.
  \<open>timeout_value()\<close> is the time until the deadline, floored at the minimum connection
  timeout.
\<close>

definition get_timeout :: "settings \<Rightarrow> extern \<Rightarrow> backoff_timer \<Rightarrow> world \<Rightarrow> real \<times> world" where
  "get_timeout C E t w =
     (let (d, w1) = get_time_until_deadline E t w in (max d (min_connection_timeout C), w1))"

text \<open>
  Modelled from the spec: \<^verbatim>\<open>get_num_retries\<close> of the base class is not in the repository.
  \<open>retry_count()\<close> returns the number of completed retries.
\<close>

definition get_num_retries :: "backoff_timer \<Rightarrow> nat" where
  "get_num_retries t = num_retries t"

text \<open>
  \<^verbatim>\<open>_AioBackoffTimer.sleep_until_deadline\<close>: the sleep, then the three assignments in the
  order of the source. The right-hand side of the second one reads the clock before it
  draws the random number and uses the backoff the first one has just stored.
\<close>

definition sleep_until_deadline :: "settings \<Rightarrow> extern \<Rightarrow> backoff_timer \<Rightarrow> world \<Rightarrow> backoff_timer \<times> world" where
  "sleep_until_deadline C E t w =
     (let (d, w1) = get_time_until_deadline E t w;
          w2 = emit (EvSleep d) w1;
          t1 = t\<lparr>backoff := min (backoff t * BACKOFF_MULTIPLIER C) (BACKOFF_MAX C)\<rparr>;
          (now, w3) = time_time E w2;
          (u, w4) = random_uniform E w3;
          t2 = t1\<lparr>deadline := now + backoff t1 * (1 + BACKOFF_JITTER C * u)\<rparr>;
          t3 = t2\<lparr>num_retries := num_retries t2 + 1\<rparr>
      in (t3, w4))"

section \<open>The transport\<close>

text \<open>
  The four handlers of \<^verbatim>\<open>_internal_request\<close>, in the order of the source. The last one
  catches \<^verbatim>\<open>Exception\<close>, so a \<open>CancelledError\<close> passes through unchanged.
\<close>

fun internal_request_except :: "exn \<Rightarrow> exn" where
  "internal_request_except (ServerTimeoutError m) =
     ConnectionException (''Request timed out: '' @ m) True"
| "internal_request_except (ClientConnectionError m) =
     ConnectionException (''Connection failed: '' @ m) True"
| "internal_request_except (ClientResponseError m) =
     ConnectionException (''Request failed: '' @ m) False"
| "internal_request_except (CancelledError m) = CancelledError m"
| "internal_request_except e =
     ConnectionException (''Unexpected request failure: '' @ exn_str e) False"

definition response_text :: "nat \<Rightarrow> text_outcome \<Rightarrow> world \<Rightarrow> (exn + string) \<times> world" where
  "response_text k body w =
     (case body of TextOk s \<Rightarrow> (Inr s, emit (EvText k) w)
                 | TextRaises e \<Rightarrow> (Inl e, emit (EvText k) w))"

definition response_close :: "nat \<Rightarrow> world \<Rightarrow> world" where
  "response_close k w = emit (EvClose k) w"

definition internal_request ::
  "extern \<Rightarrow> prepared_request \<Rightarrow> bool \<Rightarrow> real \<Rightarrow> world \<Rightarrow> (exn + response) \<times> world" where
  "internal_request E request stream timeout w =
     (let k = attempts w;
          w1 = emit (EvRequest k request timeout) (w\<lparr>attempts := Suc k\<rparr>)
      in case exchange_at E k request timeout of
           RequestRaises e \<Rightarrow> (Inl (internal_request_except e), w1)
         | Responds status body \<Rightarrow>
             (let w2 = emit (EvResponse k status) w1
              in if stream then (Inr (status, Handle k), w2)
                 else (let (r, w3) = response_text k body w2;
                           w4 = response_close k w3
                       in case r of
                            Inr s \<Rightarrow> (Inr (status, Text s), w4)
                          | Inl e \<Rightarrow> (Inl (internal_request_except e), w4))))"

text \<open>
  \<^verbatim>\<open>AioHttpClient.request\<close>: one attempt, with the default timeout of
  \<^verbatim>\<open>_internal_request\<close>. An exception of \<^verbatim>\<open>_prepare_request\<close> is raised outside the
  \<^verbatim>\<open>try\<close> of \<^verbatim>\<open>_internal_request\<close>.
\<close>

definition request ::
  "settings \<Rightarrow> extern \<Rightarrow> string \<Rightarrow> string \<Rightarrow> dict option \<Rightarrow> dict option \<Rightarrow> dict \<Rightarrow> bool \<Rightarrow> dict
     \<Rightarrow> world \<Rightarrow> (exn + response) \<times> world" where
  "request C E method url data json headers stream kwargs w =
     (let w1 = emit (EvPrepare method url data json) w
      in case prepare_request E method url data json headers kwargs of
           Inl e \<Rightarrow> (Inl e, w1)
         | Inr req \<Rightarrow> internal_request E req stream (min_connection_timeout C) w1)"

text \<open>
  Modelled from the spec: \<^verbatim>\<open>_should_retry\<close> is inherited from the wrapped library's
  \<^verbatim>\<open>HttpClient\<close> and is not in the repository. Retry is declined if (a) the attempt
  succeeded, or (b) an error occurred but its retryable flag is false, or (c) the retry
  count has reached the maximum allowed retries. Otherwise retry is granted.
\<close>

definition should_retry :: "nat \<Rightarrow> response option \<Rightarrow> exn option \<Rightarrow> nat \<Rightarrow> bool" where
  "should_retry max_retries response exception n =
     (if response \<noteq> None then False
      else if (case exception of Some e \<Rightarrow> \<not> exn_should_retry e | None \<Rightarrow> False) then False
      else if max_retries \<le> n then False
      else True)"

text \<open>
  One pass through the body of the \<^verbatim>\<open>while True\<close> of \<^verbatim>\<open>request_with_backoff\<close>: it
  returns a response, raises, or reaches the end of the body with the timer that
  \<^verbatim>\<open>sleep_until_deadline\<close> has advanced. The handler of the loop catches
  \<^verbatim>\<open>Exception\<close>, so an exception outside that class leaves the loop at once; for
  every other outcome exactly one of \<^verbatim>\<open>response\<close> and \<^verbatim>\<open>exception\<close> is set.
\<close>

datatype iteration = Return response | Raise exn | Again backoff_timer

definition captured_response :: "exn + response \<Rightarrow> response option" where
  "captured_response c = (case c of Inr r \<Rightarrow> Some r | Inl e \<Rightarrow> None)"

definition captured_exception :: "exn + response \<Rightarrow> exn option" where
  "captured_exception c = (case c of Inr r \<Rightarrow> None | Inl e \<Rightarrow> Some e)"

definition backoff_iteration ::
  "settings \<Rightarrow> extern \<Rightarrow> string \<Rightarrow> string \<Rightarrow> prepared_request \<Rightarrow> bool \<Rightarrow> backoff_timer \<Rightarrow> world
     \<Rightarrow> iteration \<times> world" where
  "backoff_iteration C E method url req stream t w =
     (let (timeout, w1) = get_timeout C E t w;
          (c, w2) = internal_request E req stream timeout w1
      in if (case c of Inl e \<Rightarrow> \<not> is_Exception e | Inr r \<Rightarrow> False)
         then (case c of Inl e \<Rightarrow> (Raise e, w2) | Inr r \<Rightarrow> (Return r, w2))
         else if \<not> should_retry (max_network_retries C)
                     (captured_response c) (captured_exception c) (get_num_retries t)
         then (case c of Inr r \<Rightarrow> (Return r, w2) | Inl e \<Rightarrow> (Raise e, w2))
         else (let w3 = (case captured_exception c of
                           Some e \<Rightarrow> emit (EvLogRetryable (exn_str e)) w2
                         | None \<Rightarrow> w2);
                   (d, w4) = get_time_until_deadline E t w3;
                   w5 = emit (EvLogRetry (get_num_retries t + 1) method url d) w4;
                   (t', w6) = sleep_until_deadline C E t w5
               in (Again t', w6)))"

partial_function (option) backoff_loop ::
  "settings \<Rightarrow> extern \<Rightarrow> string \<Rightarrow> string \<Rightarrow> prepared_request \<Rightarrow> bool \<Rightarrow> backoff_timer \<Rightarrow> world
     \<Rightarrow> ((exn + response) \<times> world) option" where
  "backoff_loop C E method url req stream t w =
     (case backoff_iteration C E method url req stream t w of
        (Return r, w') \<Rightarrow> Some (Inr r, w')
      | (Raise e, w') \<Rightarrow> Some (Inl e, w')
      | (Again t', w') \<Rightarrow> backoff_loop C E method url req stream t' w')"

definition request_with_backoff ::
  "settings \<Rightarrow> extern \<Rightarrow> string \<Rightarrow> string \<Rightarrow> dict option \<Rightarrow> dict option \<Rightarrow> dict \<Rightarrow> bool \<Rightarrow> dict
     \<Rightarrow> world \<Rightarrow> ((exn + response) \<times> world) option" where
  "request_with_backoff C E method url data json headers stream kwargs w =
     (let (t, w1) = timer_init C E w;
          w2 = emit (EvPrepare method url data json) w1
      in case prepare_request E method url data json headers kwargs of
           Inl e \<Rightarrow> Some (Inl e, w2)
         | Inr req \<Rightarrow> backoff_loop C E method url req stream t w2)"

text \<open>
  Modelled from the spec: \<^verbatim>\<open>ClientSession.close\<close> belongs to aiohttp and is not in the
  repository. \<open>close()\<close> releases all pooled connections; it is idempotent and safe to
  call multiple times. Closing a session that is still open raises what \<open>close_failure\<close>
  says, if anything.
\<close>

definition session_close :: "extern \<Rightarrow> world \<Rightarrow> exn option \<times> world" where
  "session_close E w =
     (if session_closed w then (None, w)
      else case close_failure E of
             None \<Rightarrow> (None, w\<lparr>session_closed := True\<rparr>)
           | Some e \<Rightarrow> (Some e, w))"

text \<open>
  \<^verbatim>\<open>AioHttpClient.__init__\<close> opens the session; its check of \<^verbatim>\<open>proxy\<close> cannot fail for
  a proxy that is a string or \<^verbatim>\<open>None\<close>, as the signature says.
\<close>

definition AioHttpClient_init :: "world \<Rightarrow> world" where
  "AioHttpClient_init w = w\<lparr>session_closed := False\<rparr>"

definition AioHttpClient_close :: "extern \<Rightarrow> world \<Rightarrow> exn option \<times> world" where
  "AioHttpClient_close E w = session_close E w"

section \<open>The bridge\<close>

record translator =
  tr_server_url :: string
  tr_headers :: dict

definition Translator_init ::
  "settings \<Rightarrow> extern \<Rightarrow> string \<Rightarrow> string option \<Rightarrow> world \<Rightarrow> (exn + translator) \<times> world" where
  "Translator_init C E auth_key server_url w =
     (if auth_key = [] then (Inl (ValueError ''auth_key must not be empty''), w)
      else (let server_url = (case server_url of
                                None \<Rightarrow> (if auth_key_is_free_account E auth_key
                                         then DEEPL_SERVER_URL_FREE C else DEEPL_SERVER_URL C)
                              | Some u \<Rightarrow> u);
                w1 = AioHttpClient_init w
            in (Inr \<lparr>tr_server_url = server_url,
                     tr_headers = [(''Authorization'', ''DeepL-Auth-Key '' @ auth_key)]\<rparr>, w1)))"

text \<open>
  The calls of \<^verbatim>\<open>asyncio\<close> in \<^verbatim>\<open>__del__\<close>: \<^verbatim>\<open>get_event_loop\<close> raises a
  \<^verbatim>\<open>RuntimeError\<close> when the thread has no current loop; \<^verbatim>\<open>create_task\<close> schedules the
  coroutine on the running loop and returns; \<^verbatim>\<open>run_until_complete\<close> raises a
  \<^verbatim>\<open>RuntimeError\<close> on a closed loop and otherwise runs the coroutine to its end, raising
  what the coroutine raises.
\<close>

definition get_event_loop :: "world \<Rightarrow> exn + loop_status" where
  "get_event_loop w =
     (case loop w of
        NoCurrentLoop \<Rightarrow> Inl (RuntimeError ''There is no current event loop'')
      | l \<Rightarrow> Inr l)"

definition is_running :: "loop_status \<Rightarrow> bool" where
  "is_running l = (l = LoopRunning)"

definition create_task :: "world \<Rightarrow> world" where
  "create_task w = emit EvCreateTask w"

definition run_until_complete :: "extern \<Rightarrow> loop_status \<Rightarrow> world \<Rightarrow> exn option \<times> world" where
  "run_until_complete E l w =
     (if l = LoopClosed then (Some (RuntimeError ''Event loop is closed''), w)
      else AioHttpClient_close E w)"

text \<open>The handler \<^verbatim>\<open>except RuntimeError: pass\<close> of \<^verbatim>\<open>__del__\<close>.\<close>

definition del_except :: "exn \<Rightarrow> world \<Rightarrow> exn option \<times> world" where
  "del_except e w = (if is_RuntimeError e then (None, w) else (Some e, w))"

definition Translator_del :: "extern \<Rightarrow> world \<Rightarrow> exn option \<times> world" where
  "Translator_del E w =
     (case get_event_loop w of
        Inl e \<Rightarrow> del_except e w
      | Inr l \<Rightarrow>
          if is_running l then (None, create_task w)
          else (case run_until_complete E l w of
                  (Some e, w') \<Rightarrow> del_except e w'
                | (None, w') \<Rightarrow> (None, w')))"

definition Translator_close :: "extern \<Rightarrow> world \<Rightarrow> exn option \<times> world" where
  "Translator_close E w = AioHttpClient_close E w"

text \<open>The operations of a Python \<^verbatim>\<open>dict\<close> that \<^verbatim>\<open>_api_call\<close> uses.\<close>

definition dict_contains :: "dict \<Rightarrow> string \<Rightarrow> bool" where
  "dict_contains d k = (k \<in> set (map fst d))"

fun dict_set :: "string \<Rightarrow> string \<Rightarrow> dict \<Rightarrow> dict" where
  "dict_set k v [] = [(k, v)]"
| "dict_set k v (p # ps) = (if fst p = k then (k, v) # ps else p # dict_set k v ps)"

definition dict_update :: "dict \<Rightarrow> dict \<Rightarrow> dict" where
  "dict_update d other = fold (\<lambda>(k, v) acc. dict_set k v acc) other d"

text \<open>Lines 104 to 108 of \<^verbatim>\<open>_api_call\<close>: the headers handed to the transport.\<close>

definition api_call_headers :: "dict \<Rightarrow> dict option \<Rightarrow> dict" where
  "api_call_headers self_headers headers =
     (let headers = (case headers of None \<Rightarrow> [] | Some h \<Rightarrow> h)
      in dict_update headers (filter (\<lambda>(k, v). \<not> dict_contains headers k) self_headers))"

definition api_call ::
  "settings \<Rightarrow> extern \<Rightarrow> translator \<Rightarrow> string \<Rightarrow> string \<Rightarrow> dict option \<Rightarrow> dict option \<Rightarrow> bool
     \<Rightarrow> dict option \<Rightarrow> dict \<Rightarrow> world \<Rightarrow> ((exn + int \<times> content \<times> string option) \<times> world) option" where
  "api_call C E self url method data json stream headers kwargs w =
     (if data \<noteq> None \<and> json \<noteq> None
      then Some (Inl (ValueError ''cannot accept both json and data''), w)
      else (let data = (case data of None \<Rightarrow> [] | Some d \<Rightarrow> d);
                url = urljoin E (tr_server_url self) url;
                w1 = emit (EvLogInfo ''Request to DeepL API'') w;
                w2 = emit (EvLogDebug ''Request details'') w1;
                headers = api_call_headers (tr_headers self) headers
            in case request_with_backoff C E method url (Some data) json headers stream kwargs w2 of
                 None \<Rightarrow> None
               | Some (Inl e, w3) \<Rightarrow> Some (Inl e, w3)
               | Some (Inr (status_code, content), w3) \<Rightarrow>
                   (let w4 = emit (EvLogInfo ''DeepL API response'') w3
                    in case content of
                         Text s \<Rightarrow>
                           Some (Inr (status_code, content, json_loads E s),
                                 emit (EvLogDebug ''Response details'') w4)
                       | Handle k \<Rightarrow> Some (Inr (status_code, content, None), w4))))"

section \<open>Notions used to state the properties\<close>

text \<open>The timer after \<open>n\<close> successive calls of \<^verbatim>\<open>sleep_until_deadline\<close>.\<close>

fun timer_after :: "settings \<Rightarrow> extern \<Rightarrow> nat \<Rightarrow> backoff_timer \<Rightarrow> world \<Rightarrow> backoff_timer \<times> world" where
  "timer_after C E 0 t w = (t, w)"
| "timer_after C E (Suc n) t w =
     (let (tn, wn) = timer_after C E n t w in sleep_until_deadline C E tn wn)"

text \<open>The response handles that a trace has opened and not closed.\<close>

fun handle_step :: "event \<Rightarrow> nat set \<Rightarrow> nat set" where
  "handle_step (EvResponse k s) H = insert k H"
| "handle_step (EvClose k) H = H - {k}"
| "handle_step ev H = H"

definition live_handles :: "event list \<Rightarrow> nat set" where
  "live_handles evs = fold handle_step evs {}"

text \<open>The descriptors of the requests that a trace has sent, in order.\<close>

fun requests_sent :: "event list \<Rightarrow> prepared_request list" where
  "requests_sent [] = []"
| "requests_sent (EvRequest k r timeout # evs) = r # requests_sent evs"
| "requests_sent (ev # evs) = requests_sent evs"

fun is_prepare :: "event \<Rightarrow> bool" where
  "is_prepare (EvPrepare m u d j) = True"
| "is_prepare ev = False"

fun is_sleep :: "event \<Rightarrow> bool" where
  "is_sleep (EvSleep d) = True"
| "is_sleep ev = False"

fun is_log :: "event \<Rightarrow> bool" where
  "is_log (EvLogRetryable m) = True"
| "is_log (EvLogRetry n m u d) = True"
| "is_log (EvLogInfo m) = True"
| "is_log (EvLogDebug m) = True"
| "is_log ev = False"

text \<open>
  The classification in the words of the specification: a server-side timeout and a
  connection-level failure are retryable, every other failure is not.
\<close>

fun spec_retryable :: "exn \<Rightarrow> bool" where
  "spec_retryable (ServerTimeoutError m) = True"
| "spec_retryable (ClientConnectionError m) = True"
| "spec_retryable e = False"

section \<open>Example inputs\<close>

text \<open>
  Settings with the shape of the wrapped library's: a base of one second, growth by 8/5
  up to 120 seconds, a jitter of 23/100 and five retries.
\<close>

definition example_settings :: settings where
  "example_settings =
     \<lparr>BACKOFF_INITIAL = 1, BACKOFF_MAX = 120, BACKOFF_JITTER = 23 / 100,
      BACKOFF_MULTIPLIER = 8 / 5, min_connection_timeout = 10, max_network_retries = 5,
      DEEPL_SERVER_URL = ''https://api.deepl.com'',
      DEEPL_SERVER_URL_FREE = ''https://api-free.deepl.com''\<rparr>"

text \<open>
  A world outside in which the \<open>k\<close>-th exchange does what \<open>script k\<close> says, the clock
  advances by one second per reading, every random draw is 1/2, and request preparation
  copies method, URL and headers into the descriptor.
\<close>

definition example_extern :: "(nat \<Rightarrow> exchange) \<Rightarrow> exn option \<Rightarrow> extern" where
  "example_extern script cf =
     \<lparr>exchange_at = (\<lambda>k req timeout. script k),
      time_at = (\<lambda>k. real k),
      uniform_at = (\<lambda>k. 1 / 2),
      prepare_request = (\<lambda>method url data json headers kwargs.
         Inr \<lparr>req_method = method, req_url = url, req_body = None, req_headers = headers\<rparr>),
      urljoin = (\<lambda>base url. base @ url),
      json_loads = (\<lambda>s. None),
      auth_key_is_free_account = (\<lambda>k. False),
      close_failure = cf\<rparr>"

definition example_world :: "loop_status \<Rightarrow> world" where
  "example_world l =
     \<lparr>attempts = 0, clock_reads = 0, draws = 0, trace = [], session_closed = False, loop = l\<rparr>"

definition example_timer :: backoff_timer where
  "example_timer = \<lparr>backoff = 1, deadline = 1, num_retries = 0\<rparr>"

definition example_request :: prepared_request where
  "example_request =
     \<lparr>req_method = ''POST'', req_url = ''v2/translate'', req_body = None, req_headers = []\<rparr>"

definition example_translator :: translator where
  "example_translator =
     \<lparr>tr_server_url = ''https://api.deepl.com/'',
      tr_headers = [(''Authorization'', ''DeepL-Auth-Key k'')]\<rparr>"

section \<open>The backoff timer: order of the update and bounds\<close>

lemma get_time_until_deadline_eq:
  "get_time_until_deadline E t w =
     (max 0 (deadline t - time_at E (clock_reads w)), w\<lparr>clock_reads := Suc (clock_reads w)\<rparr>)"
  by (simp add: get_time_until_deadline_def time_time_def)

lemma get_timeout_eq:
  "get_timeout C E t w =
     (max (max 0 (deadline t - time_at E (clock_reads w))) (min_connection_timeout C),
      w\<lparr>clock_reads := Suc (clock_reads w)\<rparr>)"
  by (simp add: get_timeout_def get_time_until_deadline_eq)

lemma sleep_until_deadline_eq:
  "sleep_until_deadline C E t w =
     (\<lparr>backoff = min (backoff t * BACKOFF_MULTIPLIER C) (BACKOFF_MAX C),
       deadline = time_at E (Suc (clock_reads w))
                 + min (backoff t * BACKOFF_MULTIPLIER C) (BACKOFF_MAX C)
                   * (1 + BACKOFF_JITTER C * uniform_at E (draws w)),
       num_retries = num_retries t + 1\<rparr>,
      w\<lparr>clock_reads := Suc (Suc (clock_reads w)), draws := Suc (draws w),
        trace := trace w @ [EvSleep (max 0 (deadline t - time_at E (clock_reads w)))]\<rparr>)"
  by (simp add: sleep_until_deadline_def get_time_until_deadline_eq time_time_def
      random_uniform_def emit_def Let_def)

lemma jitter_factor_bounds:
  fixes j u :: real
  assumes "0 \<le> j" and "- 1 \<le> u" and "u \<le> 1"
  shows "1 - j \<le> 1 + j * u" and "1 + j * u \<le> 1 + j"
proof -
  have "j * u \<le> j * 1" using assms by (intro mult_left_mono) auto
  then show "1 + j * u \<le> 1 + j" by simp
  have "j * (- 1) \<le> j * u" using assms by (intro mult_left_mono) auto
  then show "1 - j \<le> 1 + j * u" by simp
qed

text \<open>
  C4. When \<^verbatim>\<open>sleep_until_deadline\<close> returns, the backoff is the old one times the
  multiplier, capped at the maximum; the deadline is the clock reading taken after the
  sleep plus the new backoff scaled by a factor that lies in [1 - jitter, 1 + jitter]
  for every draw in [-1, 1], so the offset of the deadline lies between
  backoff * (1 - jitter) and backoff * (1 + jitter); and \<^verbatim>\<open>get_num_retries\<close> read
  right afterwards gives the count plus one.
\<close>

theorem sleep_until_deadline_order:
  assumes "0 \<le> BACKOFF_JITTER C" and "0 \<le> BACKOFF_MULTIPLIER C" and "0 \<le> BACKOFF_MAX C"
    and "0 \<le> backoff t"
    and "- 1 \<le> uniform_at E (draws w)" and "uniform_at E (draws w) \<le> 1"
  shows "(let t' = fst (sleep_until_deadline C E t w);
              now = time_at E (Suc (clock_reads w));
              f = 1 + BACKOFF_JITTER C * uniform_at E (draws w)
          in backoff t' = min (backoff t * BACKOFF_MULTIPLIER C) (BACKOFF_MAX C)
           \<and> deadline t' = now + backoff t' * f
           \<and> 1 - BACKOFF_JITTER C \<le> f \<and> f \<le> 1 + BACKOFF_JITTER C
           \<and> backoff t' * (1 - BACKOFF_JITTER C) \<le> deadline t' - now
           \<and> deadline t' - now \<le> backoff t' * (1 + BACKOFF_JITTER C)
           \<and> get_num_retries t' = get_num_retries t + 1)"
proof -
  define b where "b = min (backoff t * BACKOFF_MULTIPLIER C) (BACKOFF_MAX C)"
  define f where "f = 1 + BACKOFF_JITTER C * uniform_at E (draws w)"
  have b0: "0 \<le> b" using assms(2,3,4) by (simp add: b_def)
  have f1: "1 - BACKOFF_JITTER C \<le> f" and f2: "f \<le> 1 + BACKOFF_JITTER C"
    using jitter_factor_bounds[OF assms(1,5,6)] by (simp_all add: f_def)
  have lo: "b * (1 - BACKOFF_JITTER C) \<le> b * f" using b0 f1 by (rule mult_left_mono[rotated])
  have hi: "b * f \<le> b * (1 + BACKOFF_JITTER C)" using b0 f2 by (rule mult_left_mono[rotated])
  show ?thesis
    using lo hi f1 f2
    by (simp add: sleep_until_deadline_eq get_num_retries_def Let_def b_def f_def)
qed

theorem sleep_until_deadline_order_witness:
  "0 \<le> BACKOFF_JITTER example_settings \<and> 0 \<le> BACKOFF_MULTIPLIER example_settings
   \<and> 0 \<le> BACKOFF_MAX example_settings \<and> 0 \<le> backoff example_timer
   \<and> - 1 \<le> uniform_at (example_extern (\<lambda>k. RequestRaises (ServerTimeoutError ''t'')) None) 0
   \<and> uniform_at (example_extern (\<lambda>k. RequestRaises (ServerTimeoutError ''t'')) None) 0 \<le> 1
   \<and> fst (sleep_until_deadline example_settings
            (example_extern (\<lambda>k. RequestRaises (ServerTimeoutError ''t'')) None)
            example_timer (example_world LoopRunning))
       = \<lparr>backoff = 8 / 5, deadline = 1 + 8 / 5 * (1 + 23 / 200), num_retries = 1\<rparr>"
  using sleep_until_deadline_order
    [of example_settings example_timer
        "example_extern (\<lambda>k. RequestRaises (ServerTimeoutError ''t'')) None"
        "example_world LoopRunning"]
  by (simp add: example_settings_def example_timer_def example_extern_def example_world_def
      sleep_until_deadline_eq)

section \<open>The retry loop\<close>

lemma requests_sent_append: "requests_sent (xs @ ys) = requests_sent xs @ requests_sent ys"
  by (induction xs rule: requests_sent.induct) simp_all

text \<open>What one call of \<^verbatim>\<open>_internal_request\<close> adds to the world.\<close>

lemma internal_request_world:
  "\<exists>evs. attempts (snd (internal_request E req stream timeout w)) = Suc (attempts w)
       \<and> trace (snd (internal_request E req stream timeout w)) = trace w @ evs
       \<and> filter is_prepare evs = [] \<and> filter is_sleep evs = []
       \<and> requests_sent evs = [req]"
  by (cases "exchange_at E (attempts w) req timeout")
     (auto simp: internal_request_def response_text_def response_close_def emit_def Let_def
           split: text_outcome.splits)

lemma internal_request_raises:
  "internal_request E req stream timeout w = (Inl e, w') \<Longrightarrow>
     (\<exists>m b. e = ConnectionException m b) \<or> (\<exists>m. e = CancelledError m)"
  apply (cases "exchange_at E (attempts w) req timeout")
  subgoal for x by (cases x) (auto simp: internal_request_def Let_def)
  subgoal for s body
    apply (cases body)
     apply (auto simp: internal_request_def response_text_def Let_def split: if_splits)
    subgoal for x by (cases x) auto
    done
  done

lemma backoff_iteration_Inr:
  assumes "get_timeout C E t w = (timeout, w1)"
    and "internal_request E req stream timeout w1 = (Inr r, w2)"
  shows "backoff_iteration C E method url req stream t w = (Return r, w2)"
  using assms
  by (simp add: backoff_iteration_def should_retry_def captured_response_def)

lemma backoff_iteration_Inl_stop:
  assumes "get_timeout C E t w = (timeout, w1)"
    and "internal_request E req stream timeout w1 = (Inl e, w2)"
    and "\<not> (exn_should_retry e \<and> num_retries t < max_network_retries C)"
  shows "backoff_iteration C E method url req stream t w = (Raise e, w2)"
  using assms
  by (auto simp: backoff_iteration_def should_retry_def captured_response_def
      captured_exception_def get_num_retries_def)

lemma backoff_iteration_Inl_again:
  assumes "get_timeout C E t w = (timeout, w1)"
    and "internal_request E req stream timeout w1 = (Inl e, w2)"
    and "exn_should_retry e" and "num_retries t < max_network_retries C"
  shows "\<exists>t' w' evs. backoff_iteration C E method url req stream t w = (Again t', w')
           \<and> num_retries t' = Suc (num_retries t)
           \<and> attempts w' = attempts w2 \<and> trace w' = trace w2 @ evs
           \<and> filter is_prepare evs = [] \<and> length (filter is_sleep evs) = 1
           \<and> requests_sent evs = []"
proof -
  have ex: "is_Exception e" using assms(3) by (cases e) auto
  show ?thesis
    using assms ex
    by (simp add: backoff_iteration_def should_retry_def captured_response_def
        captured_exception_def get_num_retries_def get_time_until_deadline_eq
        sleep_until_deadline_eq emit_def Let_def)
qed

lemma get_timeout_world:
  "get_timeout C E t w = (timeout, w1) \<Longrightarrow> attempts w1 = attempts w \<and> trace w1 = trace w"
  by (auto simp: get_timeout_eq)

lemma backoff_loop_Return:
  "backoff_iteration C E method url req stream t w = (Return r, w') \<Longrightarrow>
     backoff_loop C E method url req stream t w = Some (Inr r, w')"
  by (subst backoff_loop.simps) simp

lemma backoff_loop_Raise:
  "backoff_iteration C E method url req stream t w = (Raise e, w') \<Longrightarrow>
     backoff_loop C E method url req stream t w = Some (Inl e, w')"
  by (subst backoff_loop.simps) simp

lemma backoff_loop_Again:
  "backoff_iteration C E method url req stream t w = (Again t', w') \<Longrightarrow>
     backoff_loop C E method url req stream t w = backoff_loop C E method url req stream t' w'"
  by (subst backoff_loop.simps) simp

text \<open>The loop returns, whatever the server does.\<close>

lemma backoff_loop_total:
  "\<exists>res w' evs. backoff_loop C E method url req stream t w = Some (res, w')
       \<and> trace w' = trace w @ evs
       \<and> filter is_prepare evs = []
       \<and> requests_sent evs = replicate (attempts w' - attempts w) req
       \<and> attempts w < attempts w'
       \<and> attempts w' \<le> attempts w + (max_network_retries C - num_retries t) + 1"
proof (induction "max_network_retries C - num_retries t" arbitrary: t w rule: less_induct)
  case less
  obtain timeout w1 where gt: "get_timeout C E t w = (timeout, w1)"
    by (cases "get_timeout C E t w")
  obtain c w2 where ir: "internal_request E req stream timeout w1 = (c, w2)"
    by (cases "internal_request E req stream timeout w1")
  from internal_request_world[of E req stream timeout w1] ir get_timeout_world[OF gt]
  obtain evs2 where w2: "attempts w2 = Suc (attempts w)" "trace w2 = trace w @ evs2"
    "filter is_prepare evs2 = []" "requests_sent evs2 = [req]"
    by auto
  show ?case
  proof (cases c)
    case (Inr r)
    with gt ir have "backoff_loop C E method url req stream t w = Some (Inr r, w2)"
      by (intro backoff_loop_Return backoff_iteration_Inr) auto
    with w2 show ?thesis by auto
  next
    case (Inl e)
    show ?thesis
    proof (cases "exn_should_retry e \<and> num_retries t < max_network_retries C")
      case False
      with gt ir Inl have "backoff_loop C E method url req stream t w = Some (Inl e, w2)"
        by (intro backoff_loop_Raise backoff_iteration_Inl_stop) auto
      with w2 show ?thesis by auto
    next
      case True
      with backoff_iteration_Inl_again[OF gt ir[unfolded Inl], of "method" url]
      obtain t' w3 evs3 where
        it: "backoff_iteration C E method url req stream t w = (Again t', w3)"
        and t': "num_retries t' = Suc (num_retries t)"
        and w3: "attempts w3 = attempts w2" "trace w3 = trace w2 @ evs3"
          "filter is_prepare evs3 = []" "requests_sent evs3 = []"
        by blast
      have "max_network_retries C - num_retries t' < max_network_retries C - num_retries t"
        using True t' by linarith
      from less[OF this, of w3]
      obtain res w' evs where
        r: "backoff_loop C E method url req stream t' w3 = Some (res, w')"
        "trace w' = trace w3 @ evs" "filter is_prepare evs = []"
        "requests_sent evs = replicate (attempts w' - attempts w3) req"
        "attempts w3 < attempts w'"
        "attempts w' \<le> attempts w3 + (max_network_retries C - num_retries t') + 1"
        by blast
      have "backoff_loop C E method url req stream t w = Some (res, w')"
        using backoff_loop_Again[OF it] r(1) by simp
      moreover have "trace w' = trace w @ (evs2 @ evs3 @ evs)"
        using r(2) w3(2) w2(2) by simp
      moreover have "filter is_prepare (evs2 @ evs3 @ evs) = []"
        using r(3) w3(3) w2(3) by simp
      moreover have "requests_sent (evs2 @ evs3 @ evs) = replicate (attempts w' - attempts w) req"
      proof -
        have "attempts w' - attempts w = Suc (attempts w' - attempts w3)"
          using r(5) w3(1) w2(1) by simp
        then show ?thesis
          using r(4) w3(4) w2(4) by (simp add: requests_sent_append)
      qed
      moreover have "attempts w < attempts w'" using r(5) w3(1) w2(1) by simp
      moreover have "attempts w' \<le> attempts w + (max_network_retries C - num_retries t) + 1"
        using r(6) w3(1) w2(1) t' True by linarith
      ultimately show ?thesis by blast
    qed
  qed
qed

lemma request_with_backoff_prepared:
  assumes "prepare_request E method url data json headers kwargs = Inr req"
  shows "request_with_backoff C E method url data json headers stream kwargs w =
           backoff_loop C E method url req stream
             \<lparr>backoff = BACKOFF_INITIAL C,
              deadline = time_at E (clock_reads w) + BACKOFF_INITIAL C, num_retries = 0\<rparr>
             (w\<lparr>clock_reads := Suc (clock_reads w),
                trace := trace w @ [EvPrepare method url data json]\<rparr>)"
  using assms
  by (simp add: request_with_backoff_def timer_init_def time_time_def emit_def)

lemma backoff_loop_all_retryable:
  assumes H: "\<forall>timeout w1. \<exists>m.
                fst (internal_request E req stream timeout w1) = Inl (ConnectionException m True)"
  shows "\<exists>m timeout wl w' evs.
           backoff_loop C E method url req stream t w = Some (Inl (ConnectionException m True), w')
         \<and> internal_request E req stream timeout wl = (Inl (ConnectionException m True), w')
         \<and> attempts wl = attempts w + (max_network_retries C - num_retries t)
         \<and> attempts w' = attempts w + (max_network_retries C - num_retries t) + 1
         \<and> trace w' = trace w @ evs
         \<and> length (filter is_sleep evs) = max_network_retries C - num_retries t"
proof (induction "max_network_retries C - num_retries t" arbitrary: t w rule: less_induct)
  case less
  obtain timeout w1 where gt: "get_timeout C E t w = (timeout, w1)"
    by (cases "get_timeout C E t w")
  from H obtain m where m: "fst (internal_request E req stream timeout w1)
       = Inl (ConnectionException m True)" by blast
  then obtain w2 where ir: "internal_request E req stream timeout w1
       = (Inl (ConnectionException m True), w2)"
    by (cases "internal_request E req stream timeout w1") simp
  from internal_request_world[of E req stream timeout w1] ir get_timeout_world[OF gt]
  obtain evs2 where w2: "attempts w2 = Suc (attempts w)" "trace w2 = trace w @ evs2"
    "filter is_sleep evs2 = []"
    by auto
  show ?case
  proof (cases "num_retries t < max_network_retries C")
    case False
    with gt ir have "backoff_loop C E method url req stream t w
         = Some (Inl (ConnectionException m True), w2)"
      by (intro backoff_loop_Raise backoff_iteration_Inl_stop) auto
    moreover have "attempts w1 = attempts w + (max_network_retries C - num_retries t)"
      using False get_timeout_world[OF gt] by simp
    moreover have "attempts w2 = attempts w + (max_network_retries C - num_retries t) + 1"
      using False w2(1) by simp
    moreover have "length (filter is_sleep evs2) = max_network_retries C - num_retries t"
      using False w2(3) by simp
    ultimately show ?thesis using ir w2(2) by blast
  next
    case True
    with backoff_iteration_Inl_again[OF gt ir, of "method" url]
    obtain t' w3 evs3 where
      it: "backoff_iteration C E method url req stream t w = (Again t', w3)"
      and t': "num_retries t' = Suc (num_retries t)"
      and w3: "attempts w3 = attempts w2" "trace w3 = trace w2 @ evs3"
        "length (filter is_sleep evs3) = 1"
      by auto
    have "max_network_retries C - num_retries t' < max_network_retries C - num_retries t"
      using True t' by linarith
    from less[OF this, of w3]
    obtain m' timeout' wl w' evs where
      r: "backoff_loop C E method url req stream t' w3 = Some (Inl (ConnectionException m' True), w')"
      "internal_request E req stream timeout' wl = (Inl (ConnectionException m' True), w')"
      "attempts wl = attempts w3 + (max_network_retries C - num_retries t')"
      "attempts w' = attempts w3 + (max_network_retries C - num_retries t') + 1"
      "trace w' = trace w3 @ evs"
      "length (filter is_sleep evs) = max_network_retries C - num_retries t'"
      by blast
    have "backoff_loop C E method url req stream t w = Some (Inl (ConnectionException m' True), w')"
      using backoff_loop_Again[OF it] r(1) by simp
    moreover have "attempts wl = attempts w + (max_network_retries C - num_retries t)"
      using r(3) w3(1) w2(1) t' True by linarith
    moreover have "attempts w' = attempts w + (max_network_retries C - num_retries t) + 1"
      using r(4) w3(1) w2(1) t' True by linarith
    moreover have "trace w' = trace w @ (evs2 @ evs3 @ evs)"
      using r(5) w3(2) w2(2) by simp
    moreover have "length (filter is_sleep (evs2 @ evs3 @ evs))
                   = max_network_retries C - num_retries t"
      using r(6) w3(3) w2(3) t' True by simp
    ultimately show ?thesis using r(2) by blast
  qed
qed

lemma backoff_loop_not_retryable:
  assumes H: "\<forall>timeout w1. attempts w1 = attempts w \<longrightarrow> (\<exists>m.
                fst (internal_request E req stream timeout w1) = Inl (ConnectionException m False))"
  shows "\<exists>m timeout w1 w' evs.
           backoff_loop C E method url req stream t w = Some (Inl (ConnectionException m False), w')
         \<and> internal_request E req stream timeout w1 = (Inl (ConnectionException m False), w')
         \<and> attempts w1 = attempts w
         \<and> attempts w' = attempts w + 1
         \<and> trace w' = trace w @ evs \<and> filter is_sleep evs = []"
proof -
  obtain timeout w1 where gt: "get_timeout C E t w = (timeout, w1)"
    by (cases "get_timeout C E t w")
  have a1: "attempts w1 = attempts w" using get_timeout_world[OF gt] by simp
  with H obtain m where m: "fst (internal_request E req stream timeout w1)
       = Inl (ConnectionException m False)" by blast
  then obtain w2 where ir: "internal_request E req stream timeout w1
       = (Inl (ConnectionException m False), w2)"
    by (cases "internal_request E req stream timeout w1") simp
  from internal_request_world[of E req stream timeout w1] ir get_timeout_world[OF gt]
  obtain evs2 where w2: "attempts w2 = Suc (attempts w)" "trace w2 = trace w @ evs2"
    "filter is_sleep evs2 = []"
    by auto
  have "backoff_loop C E method url req stream t w = Some (Inl (ConnectionException m False), w2)"
    using gt ir by (intro backoff_loop_Raise backoff_iteration_Inl_stop) auto
  with ir a1 w2 show ?thesis by auto
qed

text \<open>
  C1. When every attempt raises a \<open>ConnectionException\<close> whose \<^verbatim>\<open>should_retry\<close> is true,
  \<^verbatim>\<open>request_with_backoff\<close> returns by raising the exception of the last attempt after
  exactly \<open>max_network_retries + 1\<close> attempts and \<open>max_network_retries\<close> sleeps. When the
  first attempt raises one whose flag is false, it raises that exception after exactly
  one attempt and without any sleep.
\<close>

theorem request_with_backoff_attempts:
  assumes prep: "prepare_request E method url data json headers kwargs = Inr req"
  shows "((\<forall>timeout w1. \<exists>m. fst (internal_request E req stream timeout w1)
                              = Inl (ConnectionException m True)) \<longrightarrow>
          (\<exists>m timeout wl w' evs.
              request_with_backoff C E method url data json headers stream kwargs w
                = Some (Inl (ConnectionException m True), w')
            \<and> attempts w' = attempts w + max_network_retries C + 1
            \<and> attempts wl = attempts w + max_network_retries C
            \<and> internal_request E req stream timeout wl = (Inl (ConnectionException m True), w')
            \<and> trace w' = trace w @ evs
            \<and> length (filter is_sleep evs) = max_network_retries C))
       \<and> ((\<forall>timeout w1. attempts w1 = attempts w \<longrightarrow>
              (\<exists>m. fst (internal_request E req stream timeout w1)
                     = Inl (ConnectionException m False))) \<longrightarrow>
          (\<exists>m timeout w1 w' evs.
              request_with_backoff C E method url data json headers stream kwargs w
                = Some (Inl (ConnectionException m False), w')
            \<and> attempts w' = attempts w + 1
            \<and> attempts w1 = attempts w
            \<and> internal_request E req stream timeout w1 = (Inl (ConnectionException m False), w')
            \<and> trace w' = trace w @ evs
            \<and> filter is_sleep evs = []))"
proof (intro conjI impI)
  let ?t = "\<lparr>backoff = BACKOFF_INITIAL C,
              deadline = time_at E (clock_reads w) + BACKOFF_INITIAL C, num_retries = 0\<rparr>"
  let ?w = "w\<lparr>clock_reads := Suc (clock_reads w),
                trace := trace w @ [EvPrepare method url data json]\<rparr>"
  {
    assume "\<forall>timeout w1. \<exists>m. fst (internal_request E req stream timeout w1)
                              = Inl (ConnectionException m True)"
    from backoff_loop_all_retryable[OF this, of C "method" url ?t ?w]
    obtain m timeout wl w' evs where
      "backoff_loop C E method url req stream ?t ?w = Some (Inl (ConnectionException m True), w')"
      "internal_request E req stream timeout wl = (Inl (ConnectionException m True), w')"
      "attempts wl = attempts w + max_network_retries C"
      "attempts w' = attempts w + max_network_retries C + 1"
      "trace w' = trace w @ (EvPrepare method url data json # evs)"
      "length (filter is_sleep evs) = max_network_retries C"
      by auto
    then show "\<exists>m timeout wl w' evs.
              request_with_backoff C E method url data json headers stream kwargs w
                = Some (Inl (ConnectionException m True), w')
            \<and> attempts w' = attempts w + max_network_retries C + 1
            \<and> attempts wl = attempts w + max_network_retries C
            \<and> internal_request E req stream timeout wl = (Inl (ConnectionException m True), w')
            \<and> trace w' = trace w @ evs
            \<and> length (filter is_sleep evs) = max_network_retries C"
      unfolding request_with_backoff_prepared[OF prep]
      by (intro exI[of _ m] exI[of _ timeout] exI[of _ wl] exI[of _ w']
          exI[of _ "EvPrepare method url data json # evs"]) simp
  }
  {
    assume "\<forall>timeout w1. attempts w1 = attempts w \<longrightarrow>
              (\<exists>m. fst (internal_request E req stream timeout w1)
                     = Inl (ConnectionException m False))"
    then have "\<forall>timeout w1. attempts w1 = attempts ?w \<longrightarrow>
              (\<exists>m. fst (internal_request E req stream timeout w1)
                     = Inl (ConnectionException m False))" by simp
    from backoff_loop_not_retryable[OF this, of C "method" url ?t]
    obtain m timeout w1 w' evs where
      "backoff_loop C E method url req stream ?t ?w = Some (Inl (ConnectionException m False), w')"
      "internal_request E req stream timeout w1 = (Inl (ConnectionException m False), w')"
      "attempts w1 = attempts w"
      "attempts w' = attempts w + 1"
      "trace w' = trace w @ (EvPrepare method url data json # evs)"
      "filter is_sleep evs = []"
      by auto
    then show "\<exists>m timeout w1 w' evs.
              request_with_backoff C E method url data json headers stream kwargs w
                = Some (Inl (ConnectionException m False), w')
            \<and> attempts w' = attempts w + 1
            \<and> attempts w1 = attempts w
            \<and> internal_request E req stream timeout w1 = (Inl (ConnectionException m False), w')
            \<and> trace w' = trace w @ evs
            \<and> filter is_sleep evs = []"
      unfolding request_with_backoff_prepared[OF prep]
      by (intro exI[of _ m] exI[of _ timeout] exI[of _ w1] exI[of _ w']
          exI[of _ "EvPrepare method url data json # evs"]) simp
  }
qed

theorem request_with_backoff_attempts_witness:
  "prepare_request (example_extern (\<lambda>k. RequestRaises (ServerTimeoutError ''t'')) None)
      ''POST'' ''v2/translate'' None None [] [] = Inr example_request
   \<and> (\<forall>timeout w1. \<exists>m.
         fst (internal_request (example_extern (\<lambda>k. RequestRaises (ServerTimeoutError ''t'')) None)
                example_request False timeout w1) = Inl (ConnectionException m True))
   \<and> (\<exists>m w'. request_with_backoff example_settings
                (example_extern (\<lambda>k. RequestRaises (ServerTimeoutError ''t'')) None)
                ''POST'' ''v2/translate'' None None [] False [] (example_world LoopRunning)
              = Some (Inl (ConnectionException m True), w')
           \<and> attempts w' = 6)
   \<and> prepare_request (example_extern (\<lambda>k. RequestRaises (ClientResponseError ''bad'')) None)
      ''POST'' ''v2/translate'' None None [] [] = Inr example_request
   \<and> (\<forall>timeout w1. \<exists>m.
         fst (internal_request (example_extern (\<lambda>k. RequestRaises (ClientResponseError ''bad'')) None)
                example_request False timeout w1) = Inl (ConnectionException m False))
   \<and> (\<exists>m w'. request_with_backoff example_settings
                (example_extern (\<lambda>k. RequestRaises (ClientResponseError ''bad'')) None)
                ''POST'' ''v2/translate'' None None [] False [] (example_world LoopRunning)
              = Some (Inl (ConnectionException m False), w')
           \<and> attempts w' = 1)"
proof -
  let ?Et = "example_extern (\<lambda>k. RequestRaises (ServerTimeoutError ''t'')) None"
  let ?Ep = "example_extern (\<lambda>k. RequestRaises (ClientResponseError ''bad'')) None"
  have p1: "prepare_request ?Et ''POST'' ''v2/translate'' None None [] [] = Inr example_request"
    by (simp add: example_extern_def example_request_def)
  have p2: "prepare_request ?Ep ''POST'' ''v2/translate'' None None [] [] = Inr example_request"
    by (simp add: example_extern_def example_request_def)
  have h1: "\<forall>timeout w1. \<exists>m.
         fst (internal_request ?Et example_request False timeout w1)
           = Inl (ConnectionException m True)"
    by (simp add: internal_request_def example_extern_def Let_def)
  have h2: "\<forall>timeout w1. \<exists>m.
         fst (internal_request ?Ep example_request False timeout w1)
           = Inl (ConnectionException m False)"
    by (simp add: internal_request_def example_extern_def Let_def)
  have c1: "\<exists>m w'. request_with_backoff example_settings ?Et
                ''POST'' ''v2/translate'' None None [] False [] (example_world LoopRunning)
              = Some (Inl (ConnectionException m True), w') \<and> attempts w' = 6"
    using request_with_backoff_attempts[OF p1, where stream=False
        and C=example_settings and w="example_world LoopRunning"] h1
    by (auto simp: example_settings_def example_world_def)
  have c2: "\<exists>m w'. request_with_backoff example_settings ?Ep
                ''POST'' ''v2/translate'' None None [] False [] (example_world LoopRunning)
              = Some (Inl (ConnectionException m False), w') \<and> attempts w' = 1"
    using request_with_backoff_attempts[OF p2, where stream=False
        and C=example_settings and w="example_world LoopRunning"] h2
    by (auto simp: example_settings_def example_world_def)
  show ?thesis using p1 p2 h1 h2 c1 c2 by blast
qed

text \<open>
  C2. An attempt that captures a response ends the loop, which returns that response.
  The loop goes on to the sleep only after an attempt that raised a
  \<open>ConnectionException\<close> whose flag is true while the retry count is below the maximum,
  and in that case it always does.
\<close>

theorem retry_decision:
  "(get_timeout C E t w = (timeout, w1)
      \<and> internal_request E req stream timeout w1 = (Inr r, w2)
    \<longrightarrow> backoff_iteration C E method url req stream t w = (Return r, w2)
      \<and> backoff_loop C E method url req stream t w = Some (Inr r, w2))
   \<and> (backoff_iteration C E method url req stream t w = (Again t', w')
    \<longrightarrow> (\<exists>timeout w1 m w2. get_timeout C E t w = (timeout, w1)
           \<and> internal_request E req stream timeout w1 = (Inl (ConnectionException m True), w2))
      \<and> get_num_retries t < max_network_retries C)
   \<and> (get_timeout C E t w = (timeout, w1)
      \<and> internal_request E req stream timeout w1 = (Inl (ConnectionException m True), w2)
      \<and> get_num_retries t < max_network_retries C
    \<longrightarrow> (\<exists>t' w'. backoff_iteration C E method url req stream t w = (Again t', w')))"
proof (intro conjI impI)
  assume "get_timeout C E t w = (timeout, w1)
      \<and> internal_request E req stream timeout w1 = (Inr r, w2)"
  then have it: "backoff_iteration C E method url req stream t w = (Return r, w2)"
    by (intro backoff_iteration_Inr) auto
  then show "backoff_iteration C E method url req stream t w = (Return r, w2)" .
  from it show "backoff_loop C E method url req stream t w = Some (Inr r, w2)"
    by (rule backoff_loop_Return)
next
  assume again: "backoff_iteration C E method url req stream t w = (Again t', w')"
  obtain to v1 where gt: "get_timeout C E t w = (to, v1)"
    by (cases "get_timeout C E t w")
  obtain c v2 where ir: "internal_request E req stream to v1 = (c, v2)"
    by (cases "internal_request E req stream to v1")
  have c: "\<exists>m. c = Inl (ConnectionException m True)"
    and n: "num_retries t < max_network_retries C"
  proof -
    show "\<exists>m. c = Inl (ConnectionException m True)"
    proof (cases c)
      case (Inr r)
      with backoff_iteration_Inr[OF gt ir[unfolded Inr], of "method" url] again
      show ?thesis by simp
    next
      case (Inl e)
      show ?thesis
      proof (cases "exn_should_retry e \<and> num_retries t < max_network_retries C")
        case False
        with backoff_iteration_Inl_stop[OF gt ir[unfolded Inl], of "method" url] again
        show ?thesis by simp
      next
        case True
        then show ?thesis using Inl by (cases e) auto
      qed
    qed
    show "num_retries t < max_network_retries C"
    proof (rule ccontr)
      assume neg: "\<not> num_retries t < max_network_retries C"
      show False
      proof (cases c)
        case (Inr r)
        with backoff_iteration_Inr[OF gt ir[unfolded Inr], of "method" url] again
        show ?thesis by simp
      next
        case (Inl e)
        with backoff_iteration_Inl_stop[OF gt ir[unfolded Inl], of "method" url] again neg
        show ?thesis by simp
      qed
    qed
  qed
  from c gt ir show "\<exists>timeout w1 m w2. get_timeout C E t w = (timeout, w1)
           \<and> internal_request E req stream timeout w1 = (Inl (ConnectionException m True), w2)"
    by blast
  from n show "get_num_retries t < max_network_retries C"
    by (simp add: get_num_retries_def)
next
  assume a: "get_timeout C E t w = (timeout, w1)
      \<and> internal_request E req stream timeout w1 = (Inl (ConnectionException m True), w2)
      \<and> get_num_retries t < max_network_retries C"
  then have gt: "get_timeout C E t w = (timeout, w1)"
    and ir: "internal_request E req stream timeout w1 = (Inl (ConnectionException m True), w2)"
    and n: "num_retries t < max_network_retries C"
    by (simp_all add: get_num_retries_def)
  from backoff_iteration_Inl_again[OF gt ir _ n, of "method" url]
  show "\<exists>t' w'. backoff_iteration C E method url req stream t w = (Again t', w')"
    by auto
qed

theorem retry_decision_witness:
  "get_timeout example_settings (example_extern (\<lambda>k. Responds 200 (TextOk ''ok'')) None)
       example_timer (example_world LoopRunning)
     = (10, (example_world LoopRunning)\<lparr>clock_reads := 1\<rparr>)
   \<and> internal_request (example_extern (\<lambda>k. Responds 200 (TextOk ''ok'')) None)
       example_request False 10 ((example_world LoopRunning)\<lparr>clock_reads := 1\<rparr>)
     = (Inr (200, Text ''ok''),
        (example_world LoopRunning)\<lparr>clock_reads := 1, attempts := 1,
           trace := [EvRequest 0 example_request 10, EvResponse 0 200, EvText 0, EvClose 0]\<rparr>)
   \<and> backoff_loop example_settings (example_extern (\<lambda>k. Responds 200 (TextOk ''ok'')) None)
       ''POST'' ''v2/translate'' example_request False example_timer (example_world LoopRunning)
     = Some (Inr (200, Text ''ok''),
        (example_world LoopRunning)\<lparr>clock_reads := 1, attempts := 1,
           trace := [EvRequest 0 example_request 10, EvResponse 0 200, EvText 0, EvClose 0]\<rparr>)
   \<and> get_num_retries example_timer < max_network_retries example_settings
   \<and> (\<exists>t' w'. backoff_iteration example_settings
          (example_extern (\<lambda>k. RequestRaises (ServerTimeoutError ''t'')) None)
          ''POST'' ''v2/translate'' example_request False example_timer (example_world LoopRunning)
        = (Again t', w'))"
proof -
  let ?Eok = "example_extern (\<lambda>k. Responds 200 (TextOk ''ok'')) None"
  let ?Et = "example_extern (\<lambda>k. RequestRaises (ServerTimeoutError ''t'')) None"
  let ?w0 = "example_world LoopRunning"
  let ?w1 = "?w0\<lparr>clock_reads := 1\<rparr>"
  let ?w2 = "?w0\<lparr>clock_reads := 1, attempts := 1,
           trace := [EvRequest 0 example_request 10, EvResponse 0 200, EvText 0, EvClose 0]\<rparr>"
  have gt: "get_timeout example_settings ?Eok example_timer ?w0 = (10, ?w1)"
    by (simp add: get_timeout_eq example_settings_def example_extern_def example_timer_def
        example_world_def)
  have ir: "internal_request ?Eok example_request False 10 ?w1 = (Inr (200, Text ''ok''), ?w2)"
    by (simp add: internal_request_def response_text_def response_close_def emit_def Let_def
        example_extern_def example_world_def)
  have gt': "get_timeout example_settings ?Et example_timer ?w0 = (10, ?w1)"
    by (simp add: get_timeout_eq example_settings_def example_extern_def example_timer_def
        example_world_def)
  have ir': "internal_request ?Et example_request False 10 ?w1
      = (Inl (ConnectionException ''Request timed out: t'' True),
         ?w0\<lparr>clock_reads := 1, attempts := 1, trace := [EvRequest 0 example_request 10]\<rparr>)"
    by (simp add: internal_request_def emit_def Let_def example_extern_def example_world_def)
  have n: "get_num_retries example_timer < max_network_retries example_settings"
    by (simp add: get_num_retries_def example_timer_def example_settings_def)
  have a: "backoff_loop example_settings ?Eok ''POST'' ''v2/translate'' example_request False
             example_timer ?w0 = Some (Inr (200, Text ''ok''), ?w2)"
    using retry_decision[of example_settings "?Eok" example_timer "?w0" 10 "?w1"
        example_request False "(200, Text ''ok'')" "?w2" "''POST''" "''v2/translate''"] gt ir
    by blast
  have b: "\<exists>t' w'. backoff_iteration example_settings ?Et ''POST'' ''v2/translate''
             example_request False example_timer ?w0 = (Again t', w')"
    using retry_decision[of example_settings "?Et" example_timer "?w0" 10 "?w1"
        example_request False _
        "?w0\<lparr>clock_reads := 1, attempts := 1, trace := [EvRequest 0 example_request 10]\<rparr>"
        "''POST''" "''v2/translate''" _ _ "''Request timed out: t''"] gt' ir' n
    by blast
  show ?thesis using gt ir a n b by blast
qed

text \<open>
  C8. \<^verbatim>\<open>request_with_backoff\<close> returns, it calls \<^verbatim>\<open>_prepare_request\<close> once, before the
  first request is sent, and every request it sends carries the descriptor that this
  call returned.
\<close>

theorem descriptor_built_once:
  assumes prep: "prepare_request E method url data json headers kwargs = Inr req"
  shows "\<exists>res w' evs.
           request_with_backoff C E method url data json headers stream kwargs w = Some (res, w')
         \<and> trace w' = trace w @ EvPrepare method url data json # evs
         \<and> filter is_prepare evs = []
         \<and> requests_sent evs = replicate (attempts w' - attempts w) req
         \<and> attempts w < attempts w'"
proof -
  let ?t = "\<lparr>backoff = BACKOFF_INITIAL C,
              deadline = time_at E (clock_reads w) + BACKOFF_INITIAL C, num_retries = 0\<rparr>"
  let ?w = "w\<lparr>clock_reads := Suc (clock_reads w),
                trace := trace w @ [EvPrepare method url data json]\<rparr>"
  from backoff_loop_total[of C E "method" url req stream ?t ?w]
  obtain res w' evs where
    "backoff_loop C E method url req stream ?t ?w = Some (res, w')"
    "trace w' = trace w @ EvPrepare method url data json # evs"
    "filter is_prepare evs = []"
    "requests_sent evs = replicate (attempts w' - attempts w) req"
    "attempts w < attempts w'"
    by auto
  then show ?thesis
    unfolding request_with_backoff_prepared[OF prep] by blast
qed

theorem descriptor_built_once_witness:
  "prepare_request (example_extern (\<lambda>k. RequestRaises (ServerTimeoutError ''t'')) None)
      ''POST'' ''v2/translate'' None None [] [] = Inr example_request
   \<and> (\<exists>res w' evs.
         request_with_backoff example_settings
           (example_extern (\<lambda>k. RequestRaises (ServerTimeoutError ''t'')) None)
           ''POST'' ''v2/translate'' None None [] False [] (example_world LoopRunning)
           = Some (res, w')
       \<and> trace w' = EvPrepare ''POST'' ''v2/translate'' None None # evs
       \<and> filter is_prepare evs = []
       \<and> requests_sent evs = replicate (attempts w') example_request
       \<and> 0 < attempts w')"
proof -
  have p: "prepare_request (example_extern (\<lambda>k. RequestRaises (ServerTimeoutError ''t'')) None)
      ''POST'' ''v2/translate'' None None [] [] = Inr example_request"
    by (simp add: example_extern_def example_request_def)
  from descriptor_built_once[OF p, where C=example_settings and stream=False
      and w="example_world LoopRunning"] p
  show ?thesis by (simp add: example_world_def)
qed

section \<open>Classification of failures and release of the connection\<close>

text \<open>
  C3. An exception raised by the request, or by reading the body of a request that is
  not streamed, leaves \<^verbatim>\<open>_internal_request\<close> as a \<open>ConnectionException\<close> whose flag is
  true exactly for a \<open>ServerTimeoutError\<close> and a \<open>ClientConnectionError\<close>.
\<close>

theorem internal_request_classification:
  assumes "exchange_at E (attempts w) req timeout = RequestRaises e
           \<or> (\<not> stream \<and> (\<exists>s. exchange_at E (attempts w) req timeout = Responds s (TextRaises e)))"
    and "is_Exception e"
  shows "\<exists>m. fst (internal_request E req stream timeout w)
               = Inl (ConnectionException m (spec_retryable e))"
  using assms
  by (cases e) (auto simp: internal_request_def response_text_def Let_def)

theorem internal_request_classification_witness:
  "(exchange_at (example_extern (\<lambda>k. RequestRaises (ServerTimeoutError ''t'')) None)
       (attempts (example_world LoopRunning)) example_request 10
      = RequestRaises (ServerTimeoutError ''t'')
    \<or> (\<not> False \<and> (\<exists>s. exchange_at (example_extern (\<lambda>k. RequestRaises (ServerTimeoutError ''t'')) None)
       (attempts (example_world LoopRunning)) example_request 10
      = Responds s (TextRaises (ServerTimeoutError ''t'')))))
   \<and> is_Exception (ServerTimeoutError ''t'')
   \<and> fst (internal_request (example_extern (\<lambda>k. RequestRaises (ServerTimeoutError ''t'')) None)
            example_request False 10 (example_world LoopRunning))
       = Inl (ConnectionException ''Request timed out: t'' True)
   \<and> fst (internal_request
            (example_extern (\<lambda>k. Responds 200 (TextRaises (OtherException ''invalid start byte''))) None)
            example_request False 10 (example_world LoopRunning))
       = Inl (ConnectionException ''Unexpected request failure: invalid start byte'' False)"
  using internal_request_classification
    [of "example_extern (\<lambda>k. RequestRaises (ServerTimeoutError ''t'')) None"
        "example_world LoopRunning" example_request 10 "ServerTimeoutError ''t''" False]
    internal_request_classification
    [of "example_extern (\<lambda>k. Responds 200 (TextRaises (OtherException ''invalid start byte''))) None"
        "example_world LoopRunning" example_request 10 "OtherException ''invalid start byte''" False]
  by (simp add: example_extern_def example_world_def internal_request_def response_text_def
      response_close_def emit_def Let_def)

text \<open>
  C6. A request that is not streamed adds no live handle: when a response arrives, its
  body is read and the response is closed before \<^verbatim>\<open>_internal_request\<close> returns or raises,
  also when reading the body raises, and the value returned never holds a handle.
\<close>

theorem non_streaming_releases:
  "(let k = attempts w; (r, w') = internal_request E req False timeout w
    in live_handles (trace w') \<subseteq> live_handles (trace w)
     \<and> (\<forall>status h. r \<noteq> Inr (status, Handle h))
     \<and> (\<forall>status body. exchange_at E k req timeout = Responds status (TextOk body) \<longrightarrow>
           r = Inr (status, Text body)
         \<and> trace w' = trace w @ [EvRequest k req timeout, EvResponse k status, EvText k, EvClose k])
     \<and> (\<forall>status e. exchange_at E k req timeout = Responds status (TextRaises e) \<longrightarrow>
           r = Inl (internal_request_except e)
         \<and> trace w' = trace w @ [EvRequest k req timeout, EvResponse k status, EvText k, EvClose k])
     \<and> (\<forall>e. exchange_at E k req timeout = RequestRaises e \<longrightarrow>
           r = Inl (internal_request_except e)
         \<and> trace w' = trace w @ [EvRequest k req timeout]))"
proof (cases "exchange_at E (attempts w) req timeout")
  case (RequestRaises e)
  then show ?thesis
    by (simp add: internal_request_def emit_def Let_def live_handles_def)
next
  case (Responds status body)
  then show ?thesis
    by (cases body)
       (auto simp: internal_request_def response_text_def response_close_def emit_def
          Let_def live_handles_def)
qed

theorem non_streaming_releases_witness:
  "exchange_at (example_extern (\<lambda>k. Responds 200 (TextRaises (OtherException ''invalid start byte''))) None)
      (attempts (example_world LoopRunning)) example_request 10
     = Responds 200 (TextRaises (OtherException ''invalid start byte''))
   \<and> internal_request
        (example_extern (\<lambda>k. Responds 200 (TextRaises (OtherException ''invalid start byte''))) None)
        example_request False 10 (example_world LoopRunning)
     = (Inl (ConnectionException ''Unexpected request failure: invalid start byte'' False),
        (example_world LoopRunning)\<lparr>attempts := 1,
           trace := [EvRequest 0 example_request 10, EvResponse 0 200, EvText 0, EvClose 0]\<rparr>)
   \<and> live_handles [EvRequest 0 example_request 10, EvResponse 0 200, EvText 0, EvClose 0] = {}"
  using non_streaming_releases
    [of "example_world LoopRunning"
        "example_extern (\<lambda>k. Responds 200 (TextRaises (OtherException ''invalid start byte''))) None"
        example_request 10]
  by (simp add: example_extern_def example_world_def internal_request_def response_text_def
      response_close_def emit_def Let_def live_handles_def)

section \<open>Growth of the backoff\<close>

lemma sleep_until_deadline_backoff:
  "backoff (fst (sleep_until_deadline C E t w))
     = min (backoff t * BACKOFF_MULTIPLIER C) (BACKOFF_MAX C)"
  by (simp add: sleep_until_deadline_eq)

lemma backoff_step_bounds:
  fixes b m c :: real
  assumes "0 \<le> b" and "b \<le> c" and "1 \<le> m"
  shows "b \<le> min (b * m) c" and "min (b * m) c \<le> c" and "b = c \<Longrightarrow> min (b * m) c = c"
proof -
  have "b * 1 \<le> b * m" using assms(1,3) by (rule mult_left_mono[rotated])
  then have bm: "b \<le> b * m" by simp
  with assms(2) show "b \<le> min (b * m) c" by simp
  show "min (b * m) c \<le> c" by simp
  show "b = c \<Longrightarrow> min (b * m) c = c" using bm by simp
qed

lemma timer_after_range:
  assumes "0 \<le> backoff t" and "backoff t \<le> BACKOFF_MAX C" and "1 \<le> BACKOFF_MULTIPLIER C"
  shows "backoff t \<le> backoff (fst (timer_after C E n t w))
       \<and> backoff (fst (timer_after C E n t w)) \<le> BACKOFF_MAX C"
proof (induction n)
  case 0
  show ?case using assms by simp
next
  case (Suc n)
  let ?b = "backoff (fst (timer_after C E n t w))"
  have b0: "0 \<le> ?b" using Suc assms(1) by linarith
  have eq: "backoff (fst (timer_after C E (Suc n) t w))
              = min (?b * BACKOFF_MULTIPLIER C) (BACKOFF_MAX C)"
    by (simp add: case_prod_beta sleep_until_deadline_backoff)
  from backoff_step_bounds(1,2)[OF b0 _ assms(3), of "BACKOFF_MAX C"] Suc
  show ?case unfolding eq by linarith
qed

text \<open>
  C5. Starting from the timer that the constructor builds, the backoff after \<open>n + 1\<close>
  calls of \<^verbatim>\<open>sleep_until_deadline\<close> is at least the backoff after \<open>n\<close> calls, it never
  exceeds \<open>BACKOFF_MAX\<close>, and once it equals \<open>BACKOFF_MAX\<close> it stays there. The constants
  are those of a growing backoff: the base lies between 0 and the maximum and the
  multiplier is at least 1.
\<close>

theorem backoff_monotone_capped:
  assumes "0 \<le> BACKOFF_INITIAL C" and "BACKOFF_INITIAL C \<le> BACKOFF_MAX C"
    and "1 \<le> BACKOFF_MULTIPLIER C"
    and "timer_init C E w0 = (t0, w)"
  shows "backoff (fst (timer_after C E 0 t0 w)) = BACKOFF_INITIAL C
       \<and> backoff (fst (timer_after C E n t0 w)) \<le> backoff (fst (timer_after C E (Suc n) t0 w))
       \<and> backoff (fst (timer_after C E n t0 w)) \<le> BACKOFF_MAX C
       \<and> (backoff (fst (timer_after C E n t0 w)) = BACKOFF_MAX C
            \<longrightarrow> backoff (fst (timer_after C E (Suc n) t0 w)) = BACKOFF_MAX C)"
proof -
  have t0: "backoff t0 = BACKOFF_INITIAL C"
    using assms(4) by (auto simp: timer_init_def time_time_def)
  let ?b = "backoff (fst (timer_after C E n t0 w))"
  have r: "BACKOFF_INITIAL C \<le> ?b" "?b \<le> BACKOFF_MAX C"
    using timer_after_range[of t0 C E n w] assms(1,2,3) t0 by simp_all
  have b0: "0 \<le> ?b" using r(1) assms(1) by linarith
  have eq: "backoff (fst (timer_after C E (Suc n) t0 w))
              = min (?b * BACKOFF_MULTIPLIER C) (BACKOFF_MAX C)"
    by (simp add: case_prod_beta sleep_until_deadline_backoff)
  show ?thesis
    unfolding eq
    using backoff_step_bounds[OF b0 r(2) assms(3)] r(2) t0 by simp
qed

theorem backoff_monotone_capped_witness:
  "0 \<le> BACKOFF_INITIAL example_settings
   \<and> BACKOFF_INITIAL example_settings \<le> BACKOFF_MAX example_settings
   \<and> 1 \<le> BACKOFF_MULTIPLIER example_settings
   \<and> timer_init example_settings (example_extern (\<lambda>k. RequestRaises (ServerTimeoutError ''t'')) None)
        (example_world LoopRunning)
       = (example_timer, (example_world LoopRunning)\<lparr>clock_reads := 1\<rparr>)
   \<and> backoff (fst (timer_after example_settings
         (example_extern (\<lambda>k. RequestRaises (ServerTimeoutError ''t'')) None) 2
         example_timer ((example_world LoopRunning)\<lparr>clock_reads := 1\<rparr>)))
      \<le> backoff (fst (timer_after example_settings
         (example_extern (\<lambda>k. RequestRaises (ServerTimeoutError ''t'')) None) (Suc 2)
         example_timer ((example_world LoopRunning)\<lparr>clock_reads := 1\<rparr>)))
   \<and> backoff (fst (timer_after example_settings
         (example_extern (\<lambda>k. RequestRaises (ServerTimeoutError ''t'')) None) 2
         example_timer ((example_world LoopRunning)\<lparr>clock_reads := 1\<rparr>))) \<le> 120"
proof -
  let ?E = "example_extern (\<lambda>k. RequestRaises (ServerTimeoutError ''t'')) None"
  have h: "0 \<le> BACKOFF_INITIAL example_settings"
    "BACKOFF_INITIAL example_settings \<le> BACKOFF_MAX example_settings"
    "1 \<le> BACKOFF_MULTIPLIER example_settings"
    by (simp_all add: example_settings_def)
  have i: "timer_init example_settings ?E (example_world LoopRunning)
       = (example_timer, (example_world LoopRunning)\<lparr>clock_reads := 1\<rparr>)"
    by (simp add: timer_init_def time_time_def example_settings_def example_extern_def
        example_world_def example_timer_def)
  from backoff_monotone_capped[OF h i, of 2] h i show ?thesis
    by (simp add: example_settings_def)
qed

section \<open>The headers of an API call\<close>

lemma map_of_dict_set: "map_of (dict_set k v d) = (map_of d)(k \<mapsto> v)"
  by (induction d) (auto simp: fun_eq_iff)

lemma map_of_dict_update: "map_of (dict_update d other) = map_of d ++ map_of (rev other)"
  unfolding dict_update_def
proof (induction other arbitrary: d)
  case Nil
  show ?case by simp
next
  case (Cons p ps)
  show ?case
    by (cases p) (simp add: Cons map_of_dict_set fun_eq_iff map_add_def split: option.splits)
qed

lemma map_of_rev_distinct: "distinct (map fst xs) \<Longrightarrow> map_of (rev xs) = map_of xs"
proof (induction xs)
  case Nil
  show ?case by simp
next
  case (Cons p xs)
  obtain a b where p: "p = (a, b)" by (cases p)
  have ih: "map_of (rev xs) = map_of xs" using Cons by simp
  have fresh: "map_of xs a = None"
    using Cons.prems p by (simp add: map_of_eq_None_iff)
  show ?case
  proof (rule ext)
    fix k
    show "map_of (rev (p # xs)) k = map_of (p # xs) k"
      using fresh by (cases "k = a") (simp_all add: p ih map_add_def split: option.splits)
  qed
qed

lemma map_of_filter_keys:
  "map_of (filter (\<lambda>(k, v). P k) xs) k = (if P k then map_of xs k else None)"
  by (induction xs) auto

lemma dict_contains_map_of: "dict_contains d k \<longleftrightarrow> map_of d k \<noteq> None"
  by (simp add: dict_contains_def map_of_eq_None_iff)

lemma api_call_headers_lookup:
  assumes "distinct (map fst self_headers)"
  shows "map_of (api_call_headers self_headers (Some caller)) k
           = (case map_of caller k of Some v \<Rightarrow> Some v | None \<Rightarrow> map_of self_headers k)"
proof -
  let ?new = "filter (\<lambda>(k, v). \<not> dict_contains caller k) self_headers"
  have d: "distinct (map fst ?new)"
    using assms by (rule distinct_map_filter)
  have n: "map_of ?new k = (if \<not> dict_contains caller k then map_of self_headers k else None)"
    by (rule map_of_filter_keys)
  have "map_of (api_call_headers self_headers (Some caller)) k
          = (map_of caller ++ map_of ?new) k"
    by (simp only: api_call_headers_def Let_def option.case map_of_dict_update
        map_of_rev_distinct[OF d])
  also have "\<dots> = (case map_of caller k of Some v \<Rightarrow> Some v | None \<Rightarrow> map_of self_headers k)"
    unfolding map_add_def n
    by (simp add: dict_contains_map_of split: option.splits)
  finally show ?thesis .
qed

lemma dict_set_append:
  "k \<notin> fst ` set d \<Longrightarrow> dict_set k v (d @ acc) = d @ dict_set k v acc"
  by (induction d) auto

lemma dict_update_prefix:
  assumes "\<forall>p \<in> set other. fst p \<notin> fst ` set d"
  shows "\<exists>rest. fold (\<lambda>(k, v) acc. dict_set k v acc) other (d @ acc) = d @ rest"
  using assms
proof (induction other arbitrary: acc)
  case Nil
  show ?case by simp
next
  case (Cons p ps)
  obtain k v where p: "p = (k, v)" by (cases p)
  have "k \<notin> fst ` set d" using Cons.prems p by auto
  then have "dict_set k v (d @ acc) = d @ dict_set k v acc" by (rule dict_set_append)
  with Cons.IH[of "dict_set k v acc"] Cons.prems p show ?case by simp
qed

lemma api_call_headers_prefix:
  "\<exists>rest. api_call_headers self_headers (Some caller) = caller @ rest"
proof -
  have "\<forall>p \<in> set (filter (\<lambda>(k, v). \<not> dict_contains caller k) self_headers).
          fst p \<notin> fst ` set caller"
    by (auto simp: dict_contains_def)
  from dict_update_prefix[OF this, of "[]"] show ?thesis
    by (simp add: api_call_headers_def dict_update_def)
qed

text \<open>
  C10. The headers that \<^verbatim>\<open>_api_call\<close> hands to the transport start with the caller's
  entries, unchanged and in order; a key of the caller keeps the caller's value, and a
  key the caller does not have gets the value of the instance's default headers. For a
  translator built by the constructor, the \<open>Authorization\<close> header is the caller's if
  the caller supplies one and \<open>DeepL-Auth-Key\<close> followed by the key otherwise.
\<close>

theorem api_call_headers_precedence:
  assumes "distinct (map fst self_headers)"
  shows "(\<forall>k v. map_of caller k = Some v \<longrightarrow>
            map_of (api_call_headers self_headers (Some caller)) k = Some v)
       \<and> (\<forall>k. map_of caller k = None \<longrightarrow>
            map_of (api_call_headers self_headers (Some caller)) k = map_of self_headers k)
       \<and> (\<exists>rest. api_call_headers self_headers (Some caller) = caller @ rest)
       \<and> (\<forall>auth_key server_url w self w'.
            Translator_init C E auth_key server_url w = (Inr self, w') \<longrightarrow>
            map_of (api_call_headers (tr_headers self) (Some caller)) ''Authorization''
              = (case map_of caller ''Authorization'' of
                   Some v \<Rightarrow> Some v
                 | None \<Rightarrow> Some (''DeepL-Auth-Key '' @ auth_key)))"
proof (intro conjI allI impI)
  fix k v assume "map_of caller k = Some v"
  then show "map_of (api_call_headers self_headers (Some caller)) k = Some v"
    by (simp add: api_call_headers_lookup[OF assms])
next
  fix k assume "map_of caller k = None"
  then show "map_of (api_call_headers self_headers (Some caller)) k = map_of self_headers k"
    by (simp add: api_call_headers_lookup[OF assms])
next
  show "\<exists>rest. api_call_headers self_headers (Some caller) = caller @ rest"
    by (rule api_call_headers_prefix)
next
  fix auth_key server_url w self w'
  assume i: "Translator_init C E auth_key server_url w = (Inr self, w')"
  then have h: "tr_headers self = [(''Authorization'', ''DeepL-Auth-Key '' @ auth_key)]"
    by (auto simp: Translator_init_def Let_def split: if_splits)
  have "distinct (map fst (tr_headers self))" by (simp add: h)
  from api_call_headers_lookup[OF this, of caller "''Authorization''"]
  show "map_of (api_call_headers (tr_headers self) (Some caller)) ''Authorization''
              = (case map_of caller ''Authorization'' of
                   Some v \<Rightarrow> Some v
                 | None \<Rightarrow> Some (''DeepL-Auth-Key '' @ auth_key))"
    by (simp add: h split: option.splits)
qed

theorem api_call_headers_precedence_witness:
  "distinct (map fst [(''Authorization'', ''DeepL-Auth-Key k''), (''User-Agent'', ''x'')])
   \<and> api_call_headers [(''Authorization'', ''DeepL-Auth-Key k''), (''User-Agent'', ''x'')]
        (Some [(''Authorization'', ''mine'')])
       = [(''Authorization'', ''mine''), (''User-Agent'', ''x'')]
   \<and> map_of (api_call_headers [(''Authorization'', ''DeepL-Auth-Key k''), (''User-Agent'', ''x'')]
        (Some [(''Authorization'', ''mine'')])) ''Authorization'' = Some ''mine''"
proof -
  have d: "distinct (map fst [(''Authorization'', ''DeepL-Auth-Key k''), (''User-Agent'', ''x'')])"
    by simp
  from api_call_headers_precedence[OF d, of "[(''Authorization'', ''mine'')]"] d
  show ?thesis
    by (simp add: api_call_headers_def dict_update_def dict_contains_def)
qed

section \<open>Validation of the two bodies\<close>

text \<open>
  C7, as amended. The check of the two bodies is made by \<^verbatim>\<open>_api_call\<close>: when both
  \<^verbatim>\<open>data\<close> and \<^verbatim>\<open>json\<close> are given, it raises a \<open>ValueError\<close> and leaves the world as it
  was, so no descriptor is prepared, no request is sent and nothing is retried.
\<close>

theorem api_call_rejects_both:
  "api_call C E self url method (Some d) (Some j) stream headers kwargs w
     = Some (Inl (ValueError ''cannot accept both json and data''), w)"
  by (simp add: api_call_def)

text \<open>
  The transport itself makes no such check. With a \<^verbatim>\<open>_prepare_request\<close> that builds a
  descriptor, \<^verbatim>\<open>request\<close> called with both bodies sends the request and returns the
  response; and \<^verbatim>\<open>_api_call\<close> with a JSON body alone calls \<^verbatim>\<open>request_with_backoff\<close>
  with that body and the empty dictionary it has put in place of the missing \<^verbatim>\<open>data\<close>.
\<close>

theorem transport_accepts_both_counterexample:
  "request example_settings (example_extern (\<lambda>k. Responds 200 (TextOk ''ok'')) None)
      ''POST'' ''v2/translate'' (Some [(''text'', ''hi'')]) (Some [(''text'', ''hi'')]) [] False []
      (example_world LoopRunning)
     = (Inr (200, Text ''ok''),
        (example_world LoopRunning)\<lparr>attempts := 1,
           trace := [EvPrepare ''POST'' ''v2/translate'' (Some [(''text'', ''hi'')])
                       (Some [(''text'', ''hi'')]),
                     EvRequest 0 example_request 10, EvResponse 0 200, EvText 0, EvClose 0]\<rparr>)
   \<and> api_call example_settings (example_extern (\<lambda>k. Responds 200 (TextOk ''ok'')) None)
      example_translator ''v2/translate'' ''POST'' None (Some [(''text'', ''hi'')]) False
      (Some []) [] (example_world LoopRunning)
     = Some (Inr (200, Text ''ok'', None),
        (example_world LoopRunning)\<lparr>attempts := 1, clock_reads := 2,
           trace := [EvLogInfo ''Request to DeepL API'', EvLogDebug ''Request details'',
                     EvPrepare ''POST'' ''https://api.deepl.com/v2/translate'' (Some [])
                       (Some [(''text'', ''hi'')]),
                     EvRequest 0
                       \<lparr>req_method = ''POST'', req_url = ''https://api.deepl.com/v2/translate'',
                        req_body = None,
                        req_headers = [(''Authorization'', ''DeepL-Auth-Key k'')]\<rparr> 10,
                     EvResponse 0 200, EvText 0, EvClose 0,
                     EvLogInfo ''DeepL API response'', EvLogDebug ''Response details'']\<rparr>)"
proof -
  let ?E = "example_extern (\<lambda>k. Responds 200 (TextOk ''ok'')) None"
  let ?w0 = "example_world LoopRunning"
  let ?req = "\<lparr>req_method = ''POST'', req_url = ''https://api.deepl.com/v2/translate'',
                 req_body = None, req_headers = [(''Authorization'', ''DeepL-Auth-Key k'')]\<rparr>"
  let ?t = "\<lparr>backoff = 1, deadline = 1, num_retries = 0\<rparr>"
  let ?wa = "?w0\<lparr>clock_reads := 1,
               trace := [EvLogInfo ''Request to DeepL API'', EvLogDebug ''Request details'',
                     EvPrepare ''POST'' ''https://api.deepl.com/v2/translate'' (Some [])
                       (Some [(''text'', ''hi'')])]\<rparr>"
  let ?wb = "?w0\<lparr>clock_reads := 2,
               trace := [EvLogInfo ''Request to DeepL API'', EvLogDebug ''Request details'',
                     EvPrepare ''POST'' ''https://api.deepl.com/v2/translate'' (Some [])
                       (Some [(''text'', ''hi'')])]\<rparr>"
  let ?wc = "?w0\<lparr>attempts := 1, clock_reads := 2,
               trace := [EvLogInfo ''Request to DeepL API'', EvLogDebug ''Request details'',
                     EvPrepare ''POST'' ''https://api.deepl.com/v2/translate'' (Some [])
                       (Some [(''text'', ''hi'')]),
                     EvRequest 0 ?req 10, EvResponse 0 200, EvText 0, EvClose 0]\<rparr>"
  have a: "request example_settings ?E
      ''POST'' ''v2/translate'' (Some [(''text'', ''hi'')]) (Some [(''text'', ''hi'')]) [] False []
      ?w0
     = (Inr (200, Text ''ok''),
        ?w0\<lparr>attempts := 1,
           trace := [EvPrepare ''POST'' ''v2/translate'' (Some [(''text'', ''hi'')])
                       (Some [(''text'', ''hi'')]),
                     EvRequest 0 example_request 10, EvResponse 0 200, EvText 0, EvClose 0]\<rparr>)"
    by (simp add: request_def internal_request_def response_text_def response_close_def emit_def
        Let_def example_extern_def example_world_def example_settings_def example_request_def)
  have gt: "get_timeout example_settings ?E ?t ?wa = (10, ?wb)"
    by (simp add: get_timeout_eq example_settings_def example_extern_def example_world_def)
  have ir: "internal_request ?E ?req False 10 ?wb = (Inr (200, Text ''ok''), ?wc)"
    by (simp add: internal_request_def response_text_def response_close_def emit_def Let_def
        example_extern_def example_world_def)
  have lp: "backoff_loop example_settings ?E ''POST'' ''https://api.deepl.com/v2/translate''
              ?req False ?t ?wa = Some (Inr (200, Text ''ok''), ?wc)"
    by (rule backoff_loop_Return, rule backoff_iteration_Inr[OF gt ir])
  have rb: "request_with_backoff example_settings ?E ''POST''
              ''https://api.deepl.com/v2/translate'' (Some []) (Some [(''text'', ''hi'')])
              [(''Authorization'', ''DeepL-Auth-Key k'')] False []
              (?w0\<lparr>trace := [EvLogInfo ''Request to DeepL API'', EvLogDebug ''Request details'']\<rparr>)
            = Some (Inr (200, Text ''ok''), ?wc)"
    using lp
    by (simp add: request_with_backoff_def timer_init_def time_time_def emit_def
        example_extern_def example_world_def example_settings_def)
  have hd: "api_call_headers (tr_headers example_translator) (Some [])
              = [(''Authorization'', ''DeepL-Auth-Key k'')]"
    by (simp add: api_call_headers_def dict_update_def dict_contains_def example_translator_def)
  have uj: "urljoin ?E (tr_server_url example_translator) ''v2/translate''
              = ''https://api.deepl.com/v2/translate''"
    by (simp add: example_extern_def example_translator_def)
  have jl: "json_loads ?E ''ok'' = None" by (simp add: example_extern_def)
  have b: "api_call example_settings ?E example_translator ''v2/translate'' ''POST'' None
             (Some [(''text'', ''hi'')]) False (Some []) [] ?w0
           = Some (Inr (200, Text ''ok'', None),
                   emit (EvLogDebug ''Response details'') (emit (EvLogInfo ''DeepL API response'') ?wc))"
    unfolding api_call_def Let_def hd uj
    using rb jl
    by (simp add: emit_def example_world_def)
  show ?thesis
    using a b by (simp add: emit_def example_world_def)
qed

section \<open>Teardown\<close>

lemma session_close_again:
  "fst (session_close E w) = None \<Longrightarrow>
     session_closed (snd (session_close E w))
     \<and> session_close E (snd (session_close E w)) = (None, snd (session_close E w))"
  by (auto simp: session_close_def split: option.splits if_splits)

lemma Translator_del_shut_down:
  "loop w = NoCurrentLoop \<or> loop w = LoopClosed \<Longrightarrow> Translator_del E w = (None, w)"
  by (auto simp: Translator_del_def get_event_loop_def is_running_def run_until_complete_def
      del_except_def)

lemma Translator_del_raises:
  "fst (Translator_del E w) = Some e \<longleftrightarrow>
     loop w = LoopIdle \<and> \<not> session_closed w \<and> close_failure E = Some e \<and> \<not> is_RuntimeError e"
  by (cases "loop w")
     (auto simp: Translator_del_def get_event_loop_def is_running_def run_until_complete_def
        del_except_def AioHttpClient_close_def session_close_def create_task_def
        split: option.splits if_splits)

lemma Translator_del_no_log:
  "filter is_log (trace (snd (Translator_del E w))) = filter is_log (trace w)"
  by (cases "loop w")
     (auto simp: Translator_del_def get_event_loop_def is_running_def run_until_complete_def
        del_except_def AioHttpClient_close_def session_close_def create_task_def emit_def
        split: option.splits if_splits)

text \<open>
  C9, as amended. \<^verbatim>\<open>Translator.close\<close> closes the transport, which closes the session;
  a second close after one that did not raise does not raise and changes nothing.
  \<^verbatim>\<open>__del__\<close> returns without raising when the thread has no current loop or the loop is
  closed. It raises only what closing the session raises on an idle loop, and only if
  that is not a \<open>RuntimeError\<close>: every \<open>RuntimeError\<close> is swallowed, and nothing is ever
  logged.
\<close>

theorem teardown:
  "Translator_close E w = AioHttpClient_close E w
   \<and> AioHttpClient_close E w = session_close E w
   \<and> (fst (Translator_close E w) = None \<longrightarrow>
        session_closed (snd (Translator_close E w))
      \<and> Translator_close E (snd (Translator_close E w)) = (None, snd (Translator_close E w)))
   \<and> (loop w = NoCurrentLoop \<or> loop w = LoopClosed \<longrightarrow> Translator_del E w = (None, w))
   \<and> (\<forall>e. fst (Translator_del E w) = Some e \<longleftrightarrow>
          loop w = LoopIdle \<and> \<not> session_closed w \<and> close_failure E = Some e
        \<and> \<not> is_RuntimeError e)
   \<and> filter is_log (trace (snd (Translator_del E w))) = filter is_log (trace w)"
  using session_close_again[of E w] Translator_del_shut_down[of w E] Translator_del_raises[of E w]
    Translator_del_no_log[of E w]
  by (simp add: Translator_close_def AioHttpClient_close_def)

theorem teardown_witness:
  "fst (Translator_close (example_extern (\<lambda>k. Responds 200 (TextOk ''ok'')) None)
          (example_world LoopIdle)) = None
   \<and> Translator_close (example_extern (\<lambda>k. Responds 200 (TextOk ''ok'')) None)
        (snd (Translator_close (example_extern (\<lambda>k. Responds 200 (TextOk ''ok'')) None)
               (example_world LoopIdle)))
       = (None, (example_world LoopIdle)\<lparr>session_closed := True\<rparr>)
   \<and> loop (example_world LoopClosed) = LoopClosed
   \<and> Translator_del (example_extern (\<lambda>k. Responds 200 (TextOk ''ok'')) None)
        (example_world LoopClosed) = (None, example_world LoopClosed)
   \<and> fst (Translator_del
        (example_extern (\<lambda>k. Responds 200 (TextOk ''ok'')) (Some (OtherException ''boom'')))
        (example_world LoopIdle)) = Some (OtherException ''boom'')"
proof -
  let ?E = "example_extern (\<lambda>k. Responds 200 (TextOk ''ok'')) None"
  let ?F = "example_extern (\<lambda>k. Responds 200 (TextOk ''ok'')) (Some (OtherException ''boom''))"
  have c: "Translator_close ?E (example_world LoopIdle)
             = (None, (example_world LoopIdle)\<lparr>session_closed := True\<rparr>)"
    by (simp add: Translator_close_def AioHttpClient_close_def session_close_def
        example_extern_def example_world_def)
  have l: "loop (example_world LoopClosed) = LoopClosed" by (simp add: example_world_def)
  have f: "loop (example_world LoopIdle) = LoopIdle \<and> \<not> session_closed (example_world LoopIdle)
           \<and> close_failure ?F = Some (OtherException ''boom'')
           \<and> \<not> is_RuntimeError (OtherException ''boom'')"
    by (simp add: example_world_def example_extern_def)
  have t1: "fst (Translator_close ?E (example_world LoopIdle)) = None" by (simp add: c)
  from teardown[of ?E "example_world LoopIdle"] t1
  have t2: "Translator_close ?E (snd (Translator_close ?E (example_world LoopIdle)))
              = (None, snd (Translator_close ?E (example_world LoopIdle)))"
    by blast
  from teardown[of ?E "example_world LoopClosed"] l
  have t3: "Translator_del ?E (example_world LoopClosed) = (None, example_world LoopClosed)"
    by blast
  from teardown[of ?F "example_world LoopIdle"] f
  have t4: "fst (Translator_del ?F (example_world LoopIdle)) = Some (OtherException ''boom'')"
    by blast
  show ?thesis
    using t1 t2 t3 t4 l by (simp add: c)
qed

text \<open>
  Two runs of \<^verbatim>\<open>__del__\<close>: without a current loop it returns and the trace stays
  empty, so the failure is not logged; on an idle loop, a \<open>RuntimeError\<close> raised by closing
  the session is swallowed although the scheduler has not shut down.
\<close>

theorem teardown_counterexample:
  "Translator_del (example_extern (\<lambda>k. Responds 200 (TextOk ''ok'')) None)
       (example_world NoCurrentLoop) = (None, example_world NoCurrentLoop)
   \<and> trace (example_world NoCurrentLoop) = []
   \<and> Translator_del
       (example_extern (\<lambda>k. Responds 200 (TextOk ''ok''))
          (Some (RuntimeError ''attached to a different loop'')))
       (example_world LoopIdle) = (None, example_world LoopIdle)
   \<and> session_close
       (example_extern (\<lambda>k. Responds 200 (TextOk ''ok''))
          (Some (RuntimeError ''attached to a different loop'')))
       (example_world LoopIdle)
      = (Some (RuntimeError ''attached to a different loop''), example_world LoopIdle)"
  by (simp add: Translator_del_def get_event_loop_def is_running_def run_until_complete_def
      del_except_def AioHttpClient_close_def session_close_def example_extern_def
      example_world_def)

end
